theory Spec2Isabelle
  imports Complex_Main "HOL-Library.AList"
begin

section \<open>JavaScript values\<close>

text \<open>
  The editor of \<^verbatim>\<open>frontend/static/js/canvas.js\<close> keeps its graph in plain JavaScript
  objects that it clones, nests and reads field by field, so block data is modelled as an
  untyped value. A number is a real (IEEE rounding and the infinities are left out) or
  \<open>JNaN\<close>. An object is the list of its own enumerable properties in insertion order.
  Values are immutable here: two structurally equal objects are not told apart.
\<close>

datatype jsval =
    JUndef
  | JNull
  | JBool bool
  | JNum real
  | JNaN
  | JStr string
  | JArr "jsval list"
  | JObj "(string \<times> jsval) list"

type_synonym jsobj = "(string \<times> jsval) list"

datatype error = TypeError | InvalidCanvasData

text \<open>How a call ends: with its return value, or with the exception it throws.\<close>

datatype completion = Returned jsval | Threw error

text \<open>\<open>o.k\<close> on an object literal; a missing property reads \<open>undefined\<close>.\<close>

definition get_o :: "string \<Rightarrow> jsobj \<Rightarrow> jsval" where
  "get_o k kvs = (case map_of kvs k of Some v \<Rightarrow> v | None \<Rightarrow> JUndef)"

text \<open>
  \<open>v.k\<close> for a value that is neither \<open>undefined\<close> nor \<open>null\<close> (on those the read throws,
  which each caller below checks first). Built-in properties of primitives and arrays
  (\<open>length\<close> and the like) are not read by the embedded code and are not modelled.
\<close>

fun get :: "string \<Rightarrow> jsval \<Rightarrow> jsval" where
  "get k (JObj kvs) = get_o k kvs"
| "get k v = JUndef"

fun nullish :: "jsval \<Rightarrow> bool" where
  "nullish JUndef = True"
| "nullish JNull = True"
| "nullish v = False"

fun truthy :: "jsval \<Rightarrow> bool" where
  "truthy JUndef = False"
| "truthy JNull = False"
| "truthy (JBool b) = b"
| "truthy (JNum r) = (r \<noteq> 0)"
| "truthy JNaN = False"
| "truthy (JStr s) = (s \<noteq> [])"
| "truthy (JArr xs) = True"
| "truthy (JObj kvs) = True"

fun is_string :: "jsval \<Rightarrow> bool" where
  "is_string (JStr s) = True"
| "is_string v = False"

text \<open>
  \<open>a === b\<close>. Objects and arrays compare by reference in JavaScript; the embedded code
  only compares ids and type names, so two object values are taken as different
  references.
\<close>

fun strict_eq :: "jsval \<Rightarrow> jsval \<Rightarrow> bool" where
  "strict_eq JNaN b = False"
| "strict_eq (JArr xs) b = False"
| "strict_eq (JObj kvs) b = False"
| "strict_eq a b = (a = b)"

text \<open>\<open>a || b\<close>\<close>

definition js_or :: "jsval \<Rightarrow> jsval \<Rightarrow> jsval" where
  "js_or a b = (if truthy a then a else b)"

text \<open>\<open>Utils.deepClone\<close> (utils.js): arrays are mapped, objects are copied key by key.\<close>

fun deepClone :: "jsval \<Rightarrow> jsval" where
  "deepClone (JArr xs) = JArr (map deepClone xs)"
| "deepClone (JObj kvs) = JObj (map (\<lambda>(k, v). (k, deepClone v)) kvs)"
| "deepClone v = v"

definition deepClone_obj :: "jsobj \<Rightarrow> jsobj" where
  "deepClone_obj kvs = map (\<lambda>(k, v). (k, deepClone v)) kvs"

subsection \<open>Numbers and strings\<close>

text \<open>\<open>Math.round\<close> rounds halves up.\<close>

definition js_round :: "real \<Rightarrow> real" where
  "js_round x = of_int \<lfloor>x + 1 / 2\<rfloor>"

text \<open>\<open>Math.round(v / 20) * 20\<close>, the grid snap of \<open>addBlock\<close> and of the drag handler.\<close>

definition snap :: "real \<Rightarrow> real" where
  "snap x = js_round (x / 20) * 20"

text \<open>
  The same on a JavaScript number: \<open>NaN\<close> stays \<open>NaN\<close>. The argument is a number in every
  call of the source (pointer arithmetic, or a sum with 40); \<open>undefined + 40\<close> is \<open>NaN\<close>.
\<close>

fun snapv :: "jsval \<Rightarrow> jsval" where
  "snapv (JNum r) = JNum (snap r)"
| "snapv v = JNaN"

fun show_nat :: "nat \<Rightarrow> string" where
  "show_nat n =
     (if n < 10 then [''0123456789'' ! n]
      else show_nat (n div 10) @ [''0123456789'' ! (n mod 10)])"

declare show_nat.simps [simp del]

definition show_int :: "int \<Rightarrow> string" where
  "show_int i = (if i < 0 then CHR ''-'' # show_nat (nat (- i)) else show_nat (nat i))"

text \<open>
  The string a template literal \<open>`${v}`\<close> inserts. Exact for strings, \<open>undefined\<close>, \<open>null\<close>,
  booleans, \<open>NaN\<close>, integers below \<open>10^21\<close> and plain objects; the decimal expansion of
  other numbers and the joined text of an array are not modelled: a placeholder stands for
  them. It can only reach the \<open>id\<close> attribute of an element built from a block whose id
  is such a value, and no statement below speaks of the attribute of such an element.
\<close>

fun to_string :: "jsval \<Rightarrow> string" where
  "to_string (JStr s) = s"
| "to_string JUndef = ''undefined''"
| "to_string JNull = ''null''"
| "to_string (JBool b) = (if b then ''true'' else ''false'')"
| "to_string JNaN = ''NaN''"
| "to_string (JNum r) =
     (if of_int \<lfloor>r\<rfloor> = r \<and> \<bar>r\<bar> < 10 ^ 21 then show_int \<lfloor>r\<rfloor> else ''<number>'')"
| "to_string (JObj kvs) = ''[object Object]''"
| "to_string (JArr xs) = ''<array>''"

text \<open>\<open>s.split(c)\<close> for a one-character separator.\<close>

fun split_on :: "char \<Rightarrow> string \<Rightarrow> string list" where
  "split_on c [] = [[]]"
| "split_on c (x # xs) =
     (if x = c then [] # split_on c xs
      else (case split_on c xs of w # ws \<Rightarrow> (x # w) # ws | [] \<Rightarrow> [[x]]))"

text \<open>\<open>a[i]\<close> on an array of strings: \<open>undefined\<close> past the end.\<close>

definition arr_at :: "string list \<Rightarrow> nat \<Rightarrow> jsval" where
  "arr_at xs i = (if i < length xs then JStr (xs ! i) else JUndef)"

fun index_of :: "'a \<Rightarrow> 'a list \<Rightarrow> nat option" where
  "index_of x [] = None"
| "index_of x (y # ys) = (if x = y then Some 0 else map_option Suc (index_of x ys))"

definition digit_val :: "char \<Rightarrow> nat option" where
  "digit_val c =
     (case index_of c ''0123456789abcdef'' of
        Some d \<Rightarrow> Some d
      | None \<Rightarrow> map_option (\<lambda>i. i + 10) (index_of c ''ABCDEF''))"

definition is_digit :: "nat \<Rightarrow> char \<Rightarrow> bool" where
  "is_digit radix c = (case digit_val c of Some d \<Rightarrow> d < radix | None \<Rightarrow> False)"

definition digits_val :: "nat \<Rightarrow> string \<Rightarrow> nat" where
  "digits_val radix ds = foldl (\<lambda>acc c. acc * radix + (case digit_val c of Some d \<Rightarrow> d | None \<Rightarrow> 0)) 0 ds"

definition is_ws :: "char \<Rightarrow> bool" where
  "is_ws c = (c \<in> set [CHR '' '', CHR 0x09, CHR 0x0A, CHR 0x0B, CHR 0x0C, CHR 0x0D])"

text \<open>
  \<open>parseInt(v)\<close>: the argument is turned into a string, leading white space and a sign
  are skipped, a \<open>0x\<close> prefix selects radix 16, and the longest prefix of digits is read.
  \<open>None\<close> is \<open>NaN\<close>.
\<close>

definition parseInt :: "jsval \<Rightarrow> int option" where
  "parseInt v =
     (let s = dropWhile is_ws (to_string v);
          neg = (case s of c # r \<Rightarrow> c = CHR ''-'' | [] \<Rightarrow> False);
          s1 = (case s of c # r \<Rightarrow> (if c = CHR ''-'' \<or> c = CHR ''+'' then r else s) | [] \<Rightarrow> s);
          hex = (case s1 of a # b # r \<Rightarrow> a = CHR ''0'' \<and> (b = CHR ''x'' \<or> b = CHR ''X'') | _ \<Rightarrow> False);
          radix = (if hex then 16 else 10);
          ds = takeWhile (is_digit radix) (if hex then drop 2 s1 else s1)
      in if ds = [] then None
         else Some ((if neg then - 1 else 1) * int (digits_val radix ds)))"

text \<open>
  \<open>Array.prototype.sort(cmp)\<close>: a stable sort; a comparator result of \<open>NaN\<close> counts as
  \<open>0\<close>. For a comparator that is not a consistent order (here: when some element has no
  numbered id, as after a load or an undo) the language leaves the result to the engine,
  and an engine may put another element first than the stable insertion sort that the
  model fixes. No statement below depends on the order of such a list: the scenarios sort
  elements whose ids all carry a number, or a single element.
\<close>

fun js_insert :: "('a \<Rightarrow> 'a \<Rightarrow> int) \<Rightarrow> 'a \<Rightarrow> 'a list \<Rightarrow> 'a list" where
  "js_insert cmp x [] = [x]"
| "js_insert cmp x (y # ys) = (if cmp x y \<le> 0 then x # y # ys else y # js_insert cmp x ys)"

definition js_sort :: "('a \<Rightarrow> 'a \<Rightarrow> int) \<Rightarrow> 'a list \<Rightarrow> 'a list" where
  "js_sort cmp xs = foldr (js_insert cmp) xs []"

section \<open>DOM elements and the block map\<close>

text \<open>
  \<open>this.blocks\<close> maps a block id to the block's \<open>div\<close> element; the block object hangs on
  the element as the expando property \<open>blockData\<close>. Of an element the model keeps its
  \<open>id\<close> attribute (empty when never set) and its own enumerable properties, which are
  exactly the expandos scripts have assigned: they are what \<open>Object.keys\<close> lists. Its
  place in the document, its style and its listeners are not modelled.
\<close>

record element =
  el_id :: string
  el_props :: jsobj

text \<open>
  \<open>el.k\<close>: \<open>id\<close> is the attribute; any other name is an expando or \<open>undefined\<close> (a \<open>div\<close> has
  no \<open>type\<close> property of its own).
\<close>

definition el_get :: "string \<Rightarrow> element \<Rightarrow> jsval" where
  "el_get k el = (if k = ''id'' then JStr (el_id el) else get_o k (el_props el))"

text \<open>\<open>Utils.deepClone(el)\<close>: a plain object with the element's own enumerable properties.\<close>

definition clone_element :: "element \<Rightarrow> jsval" where
  "clone_element el = JObj (deepClone_obj (el_props el))"

text \<open>
  A JavaScript \<open>Map\<close> as an association list in insertion order: \<open>set\<close> overwrites in
  place or appends (\<open>AList.update\<close>), \<open>delete\<close> removes (\<open>AList.delete\<close>), \<open>get\<close> is
  \<open>map_of\<close>. Keys are compared structurally, which is the map's own comparison on strings
  and \<open>undefined\<close>.
\<close>

type_synonym blockmap = "(jsval \<times> element) list"

section \<open>The editor state\<close>

record snapshot =
  sn_blocks :: "(jsval \<times> jsval) list"
  sn_connections :: "jsobj list"
  sn_zoom :: real
  sn_panX :: real
  sn_panY :: real

text \<open>
  The fields of \<open>CanvasManager\<close> that the graph, the history and the autosave use. The
  last four fields stand for the browser: the pending \<open>setTimeout\<close> timers as pairs of an
  id and the time they are due, the next timer id, the time in milliseconds, and the
  number of times \<open>saveToJSON\<close> has been called.
\<close>

record canvas =
  zoom :: real
  panX :: real
  panY :: real
  selectedBlock :: "element option"
  blocks :: blockmap
  connections :: "jsobj list"
  blockCounter :: nat
  history :: "snapshot list"
  historyIndex :: int
  currentLanguage :: jsval
  autoSaveTimeout :: "nat option"
  timers :: "(nat \<times> nat) list"
  nextTimerId :: nat
  clock :: nat
  saveCalls :: nat

definition maxHistorySize :: nat where
  "maxHistorySize = 50"

definition autoSaveDelay :: nat where
  "autoSaveDelay = 1000"

text \<open>The state the constructor builds, before the start-up load.\<close>

definition init :: canvas where
  "init = \<lparr> zoom = 1, panX = 0, panY = 0, selectedBlock = None, blocks = [],
            connections = [], blockCounter = 0, history = [], historyIndex = - 1,
            currentLanguage = JUndef, autoSaveTimeout = None, timers = [],
            nextTimerId = 1, clock = 0, saveCalls = 0 \<rparr>"

section \<open>Autosave\<close>

text \<open>
  \<open>scheduleAutoSave\<close>: \<open>clearTimeout\<close> of the remembered timer when the field is truthy
  (timer ids are positive), then a new timer that calls \<open>saveToJSON\<close> after
  \<open>autoSaveDelay\<close>.
\<close>

definition scheduleAutoSave :: "canvas \<Rightarrow> canvas" where
  "scheduleAutoSave s =
     (let pending =
            (case autoSaveTimeout s of
               Some t \<Rightarrow> (if t \<noteq> 0 then filter (\<lambda>(i, due). i \<noteq> t) (timers s) else timers s)
             | None \<Rightarrow> timers s);
          t' = nextTimerId s
      in s\<lparr> timers := pending @ [(t', clock s + autoSaveDelay)],
            nextTimerId := t' + 1,
            autoSaveTimeout := Some t' \<rparr>)"

text \<open>
  Time passes: after \<open>d\<close> milliseconds every timer that has become due has run its
  callback, here always a call of \<open>saveToJSON\<close>, and is gone. The field
  \<open>autoSaveTimeout\<close> keeps the id of a timer that has fired.
\<close>

definition advance :: "nat \<Rightarrow> canvas \<Rightarrow> canvas" where
  "advance d s =
     (let now = clock s + d
      in s\<lparr> clock := now,
            timers := filter (\<lambda>(i, due). \<not> due \<le> now) (timers s),
            saveCalls := saveCalls s + length (filter (\<lambda>(i, due). due \<le> now) (timers s)) \<rparr>)"

section \<open>History\<close>

text \<open>The snapshot \<open>saveState\<close> takes: clones of the map's entries and of the connections.\<close>

definition capture :: "canvas \<Rightarrow> snapshot" where
  "capture s =
     \<lparr> sn_blocks = map (\<lambda>(k, el). (deepClone k, clone_element el)) (blocks s),
       sn_connections = map deepClone_obj (connections s),
       sn_zoom = zoom s, sn_panX = panX s, sn_panY = panY s \<rparr>"

text \<open>\<open>xs.slice(0, e)\<close>; a negative end counts from the end of the array.\<close>

definition slice0 :: "int \<Rightarrow> 'a list \<Rightarrow> 'a list" where
  "slice0 e xs = (if e < 0 then take (nat (int (length xs) + e)) xs else take (nat e) xs)"

definition saveState :: "canvas \<Rightarrow> canvas" where
  "saveState s =
     (let state = capture s;
          h1 = (if historyIndex s < int (length (history s)) - 1
                then slice0 (historyIndex s + 1) (history s) else history s);
          h2 = h1 @ [state];
          s1 = (if length h2 > maxHistorySize
                then s\<lparr> history := tl h2 \<rparr>
                else s\<lparr> history := h2, historyIndex := historyIndex s + 1 \<rparr>)
      in scheduleAutoSave s1)"

text \<open>
  \<open>restoreState\<close>: for each entry \<open>[id, blockData]\<close> of the snapshot a new element is made,
  its \<open>blockData\<close> set to a clone of the entry's second component, and stored under
  \<open>id\<close>; no \<open>id\<close> attribute is set. The block catalogue is only consulted to fill the
  element's content, which is assumed not to throw.
\<close>

definition restoreState :: "snapshot \<Rightarrow> canvas \<Rightarrow> canvas" where
  "restoreState state s =
     s\<lparr> blocks :=
          fold (\<lambda>(id, blockData) m.
                  AList.update id \<lparr> el_id = [], el_props = [(''blockData'', deepClone blockData)] \<rparr> m)
               (sn_blocks state) [],
        connections := map deepClone_obj (sn_connections state),
        zoom := (if sn_zoom state = 0 then 1 else sn_zoom state),
        panX := sn_panX state,
        panY := sn_panY state \<rparr>"

text \<open>\<open>this.history[i]\<close> is \<open>undefined\<close> outside the array, and \<open>restoreState\<close> then returns at once.\<close>

definition restoreAt :: "int \<Rightarrow> canvas \<Rightarrow> canvas" where
  "restoreAt i s =
     (if 0 \<le> i \<and> nat i < length (history s) then restoreState (history s ! nat i) s else s)"

definition undo :: "canvas \<Rightarrow> canvas" where
  "undo s =
     (if historyIndex s > 0
      then restoreAt (historyIndex s - 1) (s\<lparr> historyIndex := historyIndex s - 1 \<rparr>)
      else s)"

definition redo :: "canvas \<Rightarrow> canvas" where
  "redo s =
     (if historyIndex s < int (length (history s)) - 1
      then restoreAt (historyIndex s + 1) (s\<lparr> historyIndex := historyIndex s + 1 \<rparr>)
      else s)"

section \<open>Blocks\<close>

text \<open>
  \<open>createBlockElement(block)\<close>: the element gets the id \<open>canvas-${block.id}\<close>. Building it
  throws a \<open>TypeError\<close> when \<open>block\<close> is \<open>undefined\<close> or \<open>null\<close>, when \<open>block.type\<close> is not a
  string (\<open>Utils.camelToTitle\<close> calls \<open>replace\<close> on it), and when \<open>block.definition\<close> or
  \<open>block.properties\<close> is \<open>undefined\<close> or \<open>null\<close> (\<open>.description\<close>, \<open>Object.keys\<close>).
\<close>

definition createBlockElement :: "jsval \<Rightarrow> error + element" where
  "createBlockElement block =
     (if nullish block then Inl TypeError
      else if \<not> is_string (get ''type'' block) then Inl TypeError
      else if nullish (get ''definition'' block) then Inl TypeError
      else if nullish (get ''properties'' block) then Inl TypeError
      else Inr \<lparr> el_id = ''canvas-'' @ to_string (get ''id'' block), el_props = [] \<rparr>)"

text \<open>The comparator of \<open>autoConnectNewBlock\<close>: \<open>bNum - aNum\<close> on \<open>parseInt(x.id.split('_')[1])\<close>.\<close>

definition idNum :: "element \<Rightarrow> int option" where
  "idNum a = parseInt (arr_at (split_on CHR ''_'' (el_id a)) 1)"

definition byIdDesc :: "element \<Rightarrow> element \<Rightarrow> int" where
  "byIdDesc a b =
     (case (idNum a, idNum b) of
        (Some aNum, Some bNum) \<Rightarrow> bNum - aNum
      | _ \<Rightarrow> 0)"

text \<open>
  \<open>autoConnectNewBlock(newBlock)\<close>, run by \<open>addBlock\<close> before the new block is in the map.
  \<open>existingBlocks\<close> are the values of \<open>this.blocks\<close>, that is elements, and \<open>lastBlock.type\<close>
  and \<open>lastBlock.id\<close> are read from the element.
\<close>

definition autoConnectNewBlock :: "jsval \<Rightarrow> canvas \<Rightarrow> canvas" where
  "autoConnectNewBlock newBlock s =
     (let existingBlocks = map snd (blocks s)
      in case js_sort byIdDesc existingBlocks of
           [] \<Rightarrow> s
         | lastBlock # rest \<Rightarrow>
             if strict_eq (el_get ''type'' lastBlock) (JStr ''end'') then s
             else if strict_eq (get ''type'' newBlock) (JStr ''start'') \<and> length existingBlocks > 0
             then s
             else s\<lparr> connections := connections s @
                        [[(''from'', el_get ''id'' lastBlock), (''to'', get ''id'' newBlock)]] \<rparr>)"

text \<open>
  \<open>addBlock(type, position, definition = {})\<close>. The position holds two numbers. The
  properties dialog that may open at the end and the notification change nothing here.
\<close>

definition addBlock :: "jsval \<Rightarrow> jsval \<times> jsval \<Rightarrow> jsval \<Rightarrow> canvas \<Rightarrow> completion \<times> canvas" where
  "addBlock type position definition s =
     (let n = blockCounter s + 1;
          blockId = JStr (''block_'' @ show_nat n);
          block = JObj [(''id'', blockId), (''type'', type),
                        (''x'', snapv (fst position)), (''y'', snapv (snd position)),
                        (''properties'', JObj []),
                        (''definition'', (if definition = JUndef then JObj [] else definition))];
          s1 = autoConnectNewBlock block (s\<lparr> blockCounter := n \<rparr>)
      in case createBlockElement block of
           Inl e \<Rightarrow> (Threw e, s1)
         | Inr blockElement \<Rightarrow>
             (Returned blockId,
              saveState (s1\<lparr> blocks :=
                AList.update blockId (blockElement\<lparr> el_props := [(''blockData'', block)] \<rparr>)
                  (blocks s1) \<rparr>)))"

text \<open>
  \<open>removeBlock(blockId)\<close>. An unknown id returns at once. The closing notification calls
  \<open>Utils.camelToTitle\<close> on the block's type, which throws unless that is a string.
\<close>

definition removeBlock :: "jsval \<Rightarrow> canvas \<Rightarrow> completion \<times> canvas" where
  "removeBlock blockId s =
     (case map_of (blocks s) blockId of
        None \<Rightarrow> (Returned JUndef, s)
      | Some blockElement \<Rightarrow>
          (let blockType = (if truthy (el_get ''blockData'' blockElement)
                            then get ''type'' (el_get ''blockData'' blockElement)
                            else JStr ''unknown'');
               s1 = s\<lparr> blocks := AList.delete blockId (blocks s),
                       connections := filter (\<lambda>conn. \<not> strict_eq (get_o ''from'' conn) blockId
                                                   \<and> \<not> strict_eq (get_o ''to'' conn) blockId)
                                        (connections s) \<rparr>;
               s2 = (case selectedBlock s1 of
                       Some sel \<Rightarrow>
                         (if truthy (el_get ''blockData'' sel)
                             \<and> strict_eq (get ''id'' (el_get ''blockData'' sel)) blockId
                          then s1\<lparr> selectedBlock := None \<rparr> else s1)
                     | None \<Rightarrow> s1);
               s3 = saveState s2
           in if is_string blockType then (Returned JUndef, s3) else (Threw TypeError, s3)))"

text \<open>
  The \<open>mousemove\<close> handler of a block while it is dragged; \<open>p\<close> is the canvas position it
  computes from the pointer. The snapped coordinates are written to the element found under
  \<open>blockId\<close> (as its properties \<open>x\<close> and \<open>y\<close>), not to its \<open>blockData\<close>. The \<open>mouseup\<close>
  handler that ends the drag calls \<open>saveState\<close>.
\<close>

definition dragMove :: "jsval \<Rightarrow> real \<times> real \<Rightarrow> canvas \<Rightarrow> canvas" where
  "dragMove blockId p s =
     (case map_of (blocks s) blockId of
        None \<Rightarrow> s
      | Some block \<Rightarrow>
          s\<lparr> blocks := AList.update blockId
                (block\<lparr> el_props := AList.update ''y'' (JNum (snap (snd p)))
                                      (AList.update ''x'' (JNum (snap (fst p))) (el_props block)) \<rparr>)
                (blocks s) \<rparr>)"

definition dragEnd :: "canvas \<Rightarrow> canvas" where
  "dragEnd s = saveState s"

text \<open>\<open>clear()\<close>, the user's clear-all, and \<open>clearCanvas()\<close>, the helper of the session load.\<close>

definition clear :: "canvas \<Rightarrow> canvas" where
  "clear s = saveState (s\<lparr> blocks := [], connections := [], selectedBlock := None \<rparr>)"

definition clearCanvas :: "canvas \<Rightarrow> canvas" where
  "clearCanvas s = s\<lparr> blocks := [], connections := [], blockCounter := 0 \<rparr>"

text \<open>
  \<open>v + 40\<close> in \<open>duplicateBlock\<close>. On a string, an array or an object the sum is a string
  concatenation, which is not modelled: \<open>None\<close>.
\<close>

fun plus40 :: "jsval \<Rightarrow> jsval option" where
  "plus40 (JNum r) = Some (JNum (r + 40))"
| "plus40 JUndef = Some JNaN"
| "plus40 JNaN = Some JNaN"
| "plus40 JNull = Some (JNum 40)"
| "plus40 (JBool b) = Some (JNum (if b then 41 else 40))"
| "plus40 v = None"

text \<open>\<open>el.blockData.properties = v\<close> on the element stored under \<open>k\<close>.\<close>

definition setBlockDataProperties :: "jsval \<Rightarrow> jsval \<Rightarrow> canvas \<Rightarrow> canvas" where
  "setBlockDataProperties k v s =
     (case map_of (blocks s) k of
        None \<Rightarrow> s
      | Some el \<Rightarrow>
          (case el_get ''blockData'' el of
             JObj kvs \<Rightarrow>
               s\<lparr> blocks := AList.update k
                     (el\<lparr> el_props := AList.update ''blockData''
                            (JObj (AList.update ''properties'' v kvs)) (el_props el) \<rparr>)
                     (blocks s) \<rparr>
           | _ \<Rightarrow> s))"

text \<open>
  \<open>duplicateBlock(blockId)\<close>: a new block through \<open>addBlock\<close>, 40 to the right and below,
  then the original's properties are cloned onto it (after \<open>addBlock\<close> has saved the
  state). The result is \<open>None\<close> only where \<open>plus40\<close> is.
\<close>

definition duplicateBlock :: "jsval \<Rightarrow> canvas \<Rightarrow> (completion \<times> canvas) option" where
  "duplicateBlock blockId s =
     (case map_of (blocks s) blockId of
        None \<Rightarrow> Some (Returned JUndef, s)
      | Some originalBlockElement \<Rightarrow>
          if \<not> truthy (el_get ''blockData'' originalBlockElement) then Some (Returned JUndef, s)
          else
            (let originalBlock = el_get ''blockData'' originalBlockElement
             in case (plus40 (get ''x'' originalBlock), plus40 (get ''y'' originalBlock)) of
                  (Some nx, Some ny) \<Rightarrow>
                    (case addBlock (get ''type'' originalBlock) (nx, ny)
                            (get ''definition'' originalBlock) s of
                       (Threw e, s1) \<Rightarrow> Some (Threw e, s1)
                     | (Returned newBlockId, s1) \<Rightarrow>
                         Some (Returned JUndef,
                               setBlockDataProperties newBlockId
                                 (deepClone (get ''properties'' originalBlock)) s1))
                | _ \<Rightarrow> None))"

section \<open>Export, import and the session load\<close>

text \<open>
  The document of \<open>export()\<close> and \<open>import(data)\<close>, typed as the code writes it: \<open>blocks\<close> an
  array when present, \<open>connections\<close> an array of objects when present, \<open>metadata\<close> three
  numbers when present (the time stamp is never read back).
\<close>

record metadata =
  m_zoom :: real
  m_panX :: real
  m_panY :: real

record document =
  d_blocks :: "jsval list option"
  d_connections :: "jsobj list option"
  d_metadata :: "metadata option"

text \<open>
  \<open>export()\<close> reads each block's position from the rendered page
  (\<open>getBoundingClientRect\<close>), not from the stored block. The rendering is a parameter:
  \<open>lay el\<close> is the offset of the element's rectangle from that of the canvas content,
  \<open>(rect.left - canvasRect.left, rect.top - canvasRect.top)\<close>. An element without
  \<open>blockData\<close> is exported as it is when its \<open>id\<close> and \<open>type\<close> are truthy (written here as
  its own enumerable properties) and dropped otherwise.
\<close>

definition exportBlock :: "(element \<Rightarrow> real \<times> real) \<Rightarrow> canvas \<Rightarrow> element \<Rightarrow> jsval" where
  "exportBlock lay s blockElement =
     (if truthy (el_get ''blockData'' blockElement)
      then (let block = el_get ''blockData'' blockElement
            in JObj [(''id'', get ''id'' block),
                     (''type'', get ''type'' block),
                     (''x'', JNum ((fst (lay blockElement) - panX s) / zoom s)),
                     (''y'', JNum ((snd (lay blockElement) - panY s) / zoom s)),
                     (''properties'', js_or (get ''properties'' block) (JObj [])),
                     (''definition'', js_or (get ''definition'' block) (JObj []))])
      else if truthy (el_get ''id'' blockElement) \<and> truthy (el_get ''type'' blockElement)
      then clone_element blockElement
      else JNull)"

definition export :: "(element \<Rightarrow> real \<times> real) \<Rightarrow> canvas \<Rightarrow> document" where
  "export lay s =
     \<lparr> d_blocks = Some (filter (\<lambda>block. block \<noteq> JNull)
                          (map (exportBlock lay s) (map snd (blocks s)))),
       d_connections = Some (connections s),
       d_metadata = Some \<lparr> m_zoom = zoom s, m_panX = panX s, m_panY = panY s \<rparr> \<rparr>"

text \<open>The \<open>forEach\<close> of \<open>import\<close>: the first block that cannot be built throws and ends it.\<close>

fun importBlocks :: "jsval list \<Rightarrow> canvas \<Rightarrow> error option \<times> canvas" where
  "importBlocks [] s = (None, s)"
| "importBlocks (block # rest) s =
     (case createBlockElement block of
        Inl e \<Rightarrow> (Some e, s)
      | Inr element \<Rightarrow>
          importBlocks rest
            (s\<lparr> blocks := AList.update (get ''id'' block)
                  (element\<lparr> el_props := [(''blockData'', block)] \<rparr>) (blocks s) \<rparr>))"

text \<open>\<open>import(data)\<close>: \<open>clear()\<close>, the blocks, the connections, the view, \<open>saveState()\<close>.\<close>

definition import :: "document \<Rightarrow> canvas \<Rightarrow> completion \<times> canvas" where
  "import data s =
     (case d_blocks data of
        None \<Rightarrow> (Threw InvalidCanvasData, s)
      | Some bs \<Rightarrow>
          (case importBlocks bs (clear s) of
             (Some e, s2) \<Rightarrow> (Threw e, s2)
           | (None, s2) \<Rightarrow>
               (let s3 = (case d_connections data of
                            Some cs \<Rightarrow> s2\<lparr> connections := cs \<rparr>
                          | None \<Rightarrow> s2);
                    s4 = (case d_metadata data of
                            Some m \<Rightarrow> s3\<lparr> zoom := (if m_zoom m = 0 then 1 else m_zoom m),
                                          panX := m_panX m, panY := m_panY m \<rparr>
                          | None \<Rightarrow> s3)
                in (Returned JUndef, saveState s4))))"

text \<open>
  The session document of \<open>saveToJSON\<close> and \<open>restoreFromJSONState\<close>, with the block
  catalogue of \<open>blockManager\<close> as the list \<open>available\<close> of the ids of its definitions.
\<close>

record session =
  ss_blocks :: "jsval list option"
  ss_connections :: "jsobj list option"
  ss_zoom :: real
  ss_panX :: real
  ss_panY :: real
  ss_language :: jsval

text \<open>
  \<open>createBlockFromData(blockData)\<close> inside the \<open>try\<close> of \<open>restoreFromJSONState\<close>: a block
  that throws (\<open>blockData\<close> is \<open>undefined\<close> or \<open>null\<close>) or whose type the catalogue does not
  know is skipped. The stored \<open>blockData\<close> has no coordinates.
\<close>

definition createBlockFromData :: "jsval list \<Rightarrow> jsval \<Rightarrow> canvas \<Rightarrow> canvas" where
  "createBlockFromData available blockData s =
     (if nullish blockData then s
      else if \<not> list_ex (\<lambda>b. strict_eq b (get ''type'' blockData)) available then s
      else s\<lparr> blocks := AList.update (get ''id'' blockData)
                 \<lparr> el_id = [],
                   el_props = [(''blockData'',
                      JObj [(''id'', get ''id'' blockData),
                            (''type'', get ''type'' blockData),
                            (''properties'', js_or (get ''properties'' blockData) (JObj [])),
                            (''language'', js_or (get ''language'' blockData) (currentLanguage s))])] \<rparr>
                 (blocks s) \<rparr>)"

definition restoreFromJSONState :: "jsval list \<Rightarrow> session \<Rightarrow> canvas \<Rightarrow> canvas" where
  "restoreFromJSONState available canvasState s =
     (let s1 = clearCanvas s;
          s2 = (case ss_blocks canvasState of
                  Some bs \<Rightarrow> fold (createBlockFromData available) bs s1
                | None \<Rightarrow> s1);
          s3 = (case ss_connections canvasState of
                  Some cs \<Rightarrow>
                    s2\<lparr> connections :=
                          map (\<lambda>connData. [(''from'', get_o ''from'' connData),
                                           (''to'', get_o ''to'' connData),
                                           (''fromPort'', get_o ''fromPort'' connData),
                                           (''toPort'', get_o ''toPort'' connData)]) cs \<rparr>
                | None \<Rightarrow> s2)
      in s3\<lparr> zoom := (if ss_zoom canvasState = 0 then 1 else ss_zoom canvasState),
             panX := ss_panX canvasState,
             panY := ss_panY canvasState,
             currentLanguage := js_or (ss_language canvasState) (JStr ''python'') \<rparr>)"

section \<open>Properties and scenarios\<close>

text \<open>The history cursor lies between \<open>-1\<close> and the last index.\<close>

definition hist_ok :: "canvas \<Rightarrow> bool" where
  "hist_ok s = (- 1 \<le> historyIndex s \<and> historyIndex s \<le> int (length (history s)) - 1)"

text \<open>The connections that name, as source or as target, a key the block map does not have.\<close>

definition danglingConnections :: "canvas \<Rightarrow> jsobj list" where
  "danglingConnections s =
     filter (\<lambda>conn. map_of (blocks s) (get_o ''from'' conn) = None
                  \<or> map_of (blocks s) (get_o ''to'' conn) = None)
       (connections s)"

text \<open>A fresh session after one and after two insertions.\<close>

definition one_block :: canvas where
  "one_block = snd (addBlock (JStr ''start'') (JNum 0, JNum 0) JUndef init)"

definition two_blocks :: canvas where
  "two_blocks = snd (addBlock (JStr ''print'') (JNum 100, JNum 100) JUndef one_block)"

text \<open>A fresh session after inserting blocks of the types start, variable, print, end.\<close>

definition chain4 :: canvas where
  "chain4 =
     snd (addBlock (JStr ''end'') (JNum 0, JNum 240) JUndef
       (snd (addBlock (JStr ''print'') (JNum 0, JNum 160) JUndef
         (snd (addBlock (JStr ''variable'') (JNum 0, JNum 80) JUndef one_block)))))"

text \<open>A saved session and an exported document, each with the one block \<open>block_1\<close>.\<close>

definition saved_session :: session where
  "saved_session =
     \<lparr> ss_blocks = Some [JObj [(''id'', JStr ''block_1''), (''type'', JStr ''start''),
                               (''x'', JNum 0), (''y'', JNum 0), (''properties'', JObj []),
                               (''language'', JStr ''python'')]],
       ss_connections = Some [], ss_zoom = 1, ss_panX = 0, ss_panY = 0,
       ss_language = JStr ''python'' \<rparr>"

definition saved_document :: document where
  "saved_document =
     \<lparr> d_blocks = Some [JObj [(''id'', JStr ''block_1''), (''type'', JStr ''start''),
                              (''x'', JNum 7), (''y'', JNum 33), (''properties'', JObj []),
                              (''definition'', JObj [])]],
       d_connections = Some [],
       d_metadata = Some \<lparr> m_zoom = 1, m_panX = 0, m_panY = 0 \<rparr> \<rparr>"

text \<open>
  Every pending timer is the autosave timer the field \<open>autoSaveTimeout\<close> remembers: the
  editor starts no other timer.
\<close>

definition pending_ok :: "canvas \<Rightarrow> bool" where
  "pending_ok s =
     (nextTimerId s \<noteq> 0
      \<and> (\<forall>(i, due) \<in> set (timers s). autoSaveTimeout s = Some i \<and> i \<noteq> 0))"

text \<open>
  A burst of committed mutations: each ends in \<open>saveState\<close>, and \<open>gaps\<close> lists the
  milliseconds between one and the next, so a list of \<open>n\<close> gaps stands for \<open>n + 1\<close>
  mutations.
\<close>

fun burst :: "nat list \<Rightarrow> canvas \<Rightarrow> canvas" where
  "burst [] s = saveState s"
| "burst (g # gs) s = burst gs (advance g (saveState s))"

text \<open>A stored coordinate is a number and a multiple of the grid unit 20.\<close>

fun on_grid :: "jsval \<Rightarrow> bool" where
  "on_grid (JNum r) = (of_int \<lfloor>r / 20\<rfloor> * 20 = r)"
| "on_grid v = False"

text \<open>
  The coordinates an element stores: \<open>x\<close> and \<open>y\<close> of its \<open>blockData\<close>, and the \<open>x\<close> and \<open>y\<close>
  the drag handler writes on the element itself, when present.
\<close>

definition stored_ok :: "element \<Rightarrow> bool" where
  "stored_ok el =
     (on_grid (get ''x'' (el_get ''blockData'' el))
      \<and> on_grid (get ''y'' (el_get ''blockData'' el))
      \<and> (el_get ''x'' el = JUndef \<or> on_grid (el_get ''x'' el))
      \<and> (el_get ''y'' el = JUndef \<or> on_grid (el_get ''y'' el)))"

definition grid_inv :: "canvas \<Rightarrow> bool" where
  "grid_inv s = list_all (\<lambda>(k, el). stored_ok el) (blocks s)"

text \<open>The state \<open>clear()\<close> saves: no blocks, no connections, no selection.\<close>

definition emptied :: "canvas \<Rightarrow> canvas" where
  "emptied s = s\<lparr> blocks := [], connections := [], selectedBlock := None \<rparr>"

section \<open>Cloning and the history cursor\<close>

lemma deepClone_id [simp]: "deepClone v = v"
  by (induction v rule: deepClone.induct) (auto intro!: map_idI)

lemma deepClone_obj_id [simp]: "deepClone_obj kvs = kvs"
  by (simp add: deepClone_obj_def map_idI)

lemma map_deepClone_obj_id [simp]: "map deepClone_obj cs = cs"
  by (simp add: map_idI)

lemma clone_element_eq [simp]: "clone_element el = JObj (el_props el)"
  by (simp add: clone_element_def)

lemma capture_eq:
  "capture s = \<lparr> sn_blocks = map (\<lambda>(k, el). (k, JObj (el_props el))) (blocks s),
                  sn_connections = connections s,
                  sn_zoom = zoom s, sn_panX = panX s, sn_panY = panY s \<rparr>"
  by (simp add: capture_def)

lemma scheduleAutoSave_fields [simp]:
  "blocks (scheduleAutoSave s) = blocks s"
  "connections (scheduleAutoSave s) = connections s"
  "history (scheduleAutoSave s) = history s"
  "historyIndex (scheduleAutoSave s) = historyIndex s"
  "zoom (scheduleAutoSave s) = zoom s"
  "panX (scheduleAutoSave s) = panX s"
  "panY (scheduleAutoSave s) = panY s"
  "selectedBlock (scheduleAutoSave s) = selectedBlock s"
  "blockCounter (scheduleAutoSave s) = blockCounter s"
  "currentLanguage (scheduleAutoSave s) = currentLanguage s"
  "clock (scheduleAutoSave s) = clock s"
  "saveCalls (scheduleAutoSave s) = saveCalls s"
  "nextTimerId (scheduleAutoSave s) = nextTimerId s + 1"
  "autoSaveTimeout (scheduleAutoSave s) = Some (nextTimerId s)"
  by (simp_all add: scheduleAutoSave_def Let_def)

lemma saveState_fields [simp]:
  "blocks (saveState s) = blocks s"
  "connections (saveState s) = connections s"
  "zoom (saveState s) = zoom s"
  "panX (saveState s) = panX s"
  "panY (saveState s) = panY s"
  "selectedBlock (saveState s) = selectedBlock s"
  "blockCounter (saveState s) = blockCounter s"
  "currentLanguage (saveState s) = currentLanguage s"
  "clock (saveState s) = clock s"
  "saveCalls (saveState s) = saveCalls s"
  "nextTimerId (saveState s) = nextTimerId s + 1"
  "autoSaveTimeout (saveState s) = Some (nextTimerId s)"
  by (simp_all add: saveState_def Let_def)

lemma saveState_history:
  "history (saveState s) =
     (let h2 = (if historyIndex s < int (length (history s)) - 1
                then slice0 (historyIndex s + 1) (history s) else history s) @ [capture s]
      in if length h2 > maxHistorySize then tl h2 else h2)"
  "historyIndex (saveState s) =
     (let h2 = (if historyIndex s < int (length (history s)) - 1
                then slice0 (historyIndex s + 1) (history s) else history s) @ [capture s]
      in if length h2 > maxHistorySize then historyIndex s else historyIndex s + 1)"
  by (simp_all add: saveState_def Let_def)




lemma restoreState_history [simp]:
  "history (restoreState st s) = history s"
  "historyIndex (restoreState st s) = historyIndex s"
  by (simp_all add: restoreState_def)

lemma restoreAt_history [simp]:
  "history (restoreAt i s) = history s"
  "historyIndex (restoreAt i s) = historyIndex s"
  by (simp_all add: restoreAt_def)




lemma init_hist_ok: "hist_ok init"
  by (simp add: hist_ok_def init_def)



lemma redo_hist_ok: "hist_ok s \<Longrightarrow> hist_ok (redo s)"
  by (auto simp: hist_ok_def redo_def)

section \<open>Timers\<close>

lemma saveState_timers:
  assumes "pending_ok s"
  shows "timers (saveState s) = [(nextTimerId s, clock s + autoSaveDelay)]"
proof -
  have "filter (\<lambda>(i, due). i \<noteq> t) (timers s) = []" if "autoSaveTimeout s = Some t" for t
    using assms that by (auto simp: pending_ok_def filter_empty_conv)
  moreover have "timers s = []" if "autoSaveTimeout s = None \<or> autoSaveTimeout s = Some 0"
    using assms that by (cases "timers s") (auto simp: pending_ok_def)
  ultimately show ?thesis
    by (auto simp: saveState_def scheduleAutoSave_def Let_def split: option.splits)
qed

lemma saveState_pending_ok: "pending_ok s \<Longrightarrow> pending_ok (saveState s)"
  by (simp add: pending_ok_def saveState_timers [unfolded pending_ok_def])

lemma advance_pending_ok: "pending_ok s \<Longrightarrow> pending_ok (advance d s)"
  by (auto simp: pending_ok_def advance_def Let_def)

lemma advance_early:
  assumes "timers s = [(t, clock s + autoSaveDelay)]" "d < autoSaveDelay"
  shows "saveCalls (advance d s) = saveCalls s"
    and "timers (advance d s) = timers s"
  using assms by (simp_all add: advance_def Let_def)

lemma advance_late:
  assumes "timers s = [(t, clock s + autoSaveDelay)]" "autoSaveDelay \<le> d"
  shows "saveCalls (advance d s) = saveCalls s + 1"
    and "timers (advance d s) = []"
  using assms by (simp_all add: advance_def Let_def)

lemma burst_quiet:
  assumes "pending_ok s" "\<forall>g \<in> set gaps. g < autoSaveDelay"
  shows "saveCalls (burst gaps s) = saveCalls s
         \<and> (\<exists>t. timers (burst gaps s) = [(t, clock (burst gaps s) + autoSaveDelay)])"
  using assms
proof (induction gaps arbitrary: s)
  case Nil
  then show ?case by (simp add: saveState_timers)
next
  case (Cons g gaps)
  let ?s1 = "saveState s"
  have t1: "timers ?s1 = [(nextTimerId s, clock ?s1 + autoSaveDelay)]"
    using Cons.prems(1) by (simp add: saveState_timers)
  have g: "g < autoSaveDelay" using Cons.prems(2) by simp
  have ok: "pending_ok (advance g ?s1)"
    using Cons.prems(1) by (intro advance_pending_ok saveState_pending_ok)
  have calls: "saveCalls (advance g ?s1) = saveCalls s"
    using advance_early(1) [OF t1 g] by simp
  show ?case
    using Cons.IH [OF ok] Cons.prems(2) calls by simp
qed

lemma init_pending_ok: "pending_ok init"
  by (simp add: pending_ok_def init_def)

section \<open>The grid\<close>

lemma snap_on_grid [simp]: "real_of_int \<lfloor>snap r / 20\<rfloor> * 20 = snap r"
  by (simp add: snap_def js_round_def)

lemma on_grid_plus40: "on_grid v \<Longrightarrow> \<exists>r. plus40 v = Some (JNum r)"
  by (cases v) auto

lemma set_update_subset: "set (AList.update k v xs) \<subseteq> insert (k, v) (set xs)"
  by (induction xs) auto

lemma set_delete_subset: "set (AList.delete k xs) \<subseteq> set xs"
  by (induction xs) auto

lemma grid_inv_iff: "grid_inv s \<longleftrightarrow> (\<forall>(k, el) \<in> set (blocks s). stored_ok el)"
  by (simp add: grid_inv_def list_all_iff)

lemma grid_inv_update:
  assumes "grid_inv s" "stored_ok el" "blocks s' = AList.update k el (blocks s)"
  shows "grid_inv s'"
  using assms set_update_subset [of k el "blocks s"] by (auto simp: grid_inv_iff)

lemma autoConnectNewBlock_blocks [simp]: "blocks (autoConnectNewBlock b s) = blocks s"
  by (simp add: autoConnectNewBlock_def Let_def split: list.splits)

lemma list_all_update:
  "list_all P xs \<Longrightarrow> P (k, v) \<Longrightarrow> list_all P (AList.update k v xs)"
  by (induction xs) auto

lemma addBlock_grid:
  assumes "grid_inv s"
  shows "grid_inv (snd (addBlock type (JNum px, JNum py) definition s))"
  using assms
  by (auto simp: addBlock_def Let_def grid_inv_def stored_ok_def el_get_def get_o_def
           intro!: list_all_update split: sum.splits)

lemma get_o_update_other: "k \<noteq> k' \<Longrightarrow> get_o k (AList.update k' v kvs) = get_o k kvs"
  by (simp add: get_o_def update_conv')

lemma get_o_update_same: "get_o k (AList.update k v kvs) = v"
  by (simp add: get_o_def update_conv')

lemma dragMove_grid:
  assumes "grid_inv s"
  shows "grid_inv (dragMove blockId p s)"
proof (cases "map_of (blocks s) blockId")
  case None
  then show ?thesis using assms by (simp add: dragMove_def)
next
  case (Some el)
  then have "(blockId, el) \<in> set (blocks s)" by (rule map_of_SomeD)
  then have el: "stored_ok el" using assms by (auto simp: grid_inv_iff)
  have "stored_ok (el\<lparr> el_props := AList.update ''y'' (JNum (snap (snd p)))
                                      (AList.update ''x'' (JNum (snap (fst p))) (el_props el)) \<rparr>)"
    using el by (simp add: stored_ok_def el_get_def get_o_update_other get_o_update_same)
  then show ?thesis
    using Some grid_inv_update [OF assms] by (simp add: dragMove_def)
qed

lemma removeBlock_grid:
  assumes "grid_inv s"
  shows "grid_inv (snd (removeBlock blockId s))"
proof -
  have "grid_inv (s\<lparr> blocks := AList.delete blockId (blocks s) \<rparr>)"
    using assms set_delete_subset [of blockId "blocks s"] by (auto simp: grid_inv_iff)
  then show ?thesis
    using assms
    by (auto simp: removeBlock_def Let_def grid_inv_def split: option.splits)
qed

lemma setBlockDataProperties_grid:
  assumes "grid_inv s"
  shows "grid_inv (setBlockDataProperties k v s)"
proof (cases "map_of (blocks s) k")
  case None
  then show ?thesis using assms by (simp add: setBlockDataProperties_def)
next
  case (Some el)
  then have "(k, el) \<in> set (blocks s)" by (rule map_of_SomeD)
  then have el: "stored_ok el" using assms by (auto simp: grid_inv_iff)
  show ?thesis
  proof (cases "el_get ''blockData'' el")
    case (JObj kvs)
    have "stored_ok (el\<lparr> el_props := AList.update ''blockData''
                            (JObj (AList.update ''properties'' v kvs)) (el_props el) \<rparr>)"
      using el JObj
      by (simp add: stored_ok_def el_get_def get_o_update_other get_o_update_same)
    then show ?thesis
      using Some JObj grid_inv_update [OF assms] by (simp add: setBlockDataProperties_def)
  qed (use Some assms in \<open>simp_all add: setBlockDataProperties_def\<close>)
qed

lemma duplicateBlock_grid:
  assumes "grid_inv s"
  shows "\<exists>r. duplicateBlock blockId s = Some r \<and> grid_inv (snd r)"
proof (cases "map_of (blocks s) blockId")
  case None
  then show ?thesis using assms by (simp add: duplicateBlock_def)
next
  case (Some el)
  then have "(blockId, el) \<in> set (blocks s)" by (rule map_of_SomeD)
  then have el: "stored_ok el" using assms by (auto simp: grid_inv_iff)
  then obtain rx ry where
    x: "plus40 (get ''x'' (el_get ''blockData'' el)) = Some (JNum rx)" and
    y: "plus40 (get ''y'' (el_get ''blockData'' el)) = Some (JNum ry)"
    using on_grid_plus40 unfolding stored_ok_def by blast
  have tr: "truthy (el_get ''blockData'' el)"
    using el by (cases "el_get ''blockData'' el") (auto simp: stored_ok_def)
  obtain c s1 where a: "addBlock (get ''type'' (el_get ''blockData'' el)) (JNum rx, JNum ry)
                          (get ''definition'' (el_get ''blockData'' el)) s = (c, s1)"
    by (cases "addBlock (get ''type'' (el_get ''blockData'' el)) (JNum rx, JNum ry)
                          (get ''definition'' (el_get ''blockData'' el)) s")
  have g1: "grid_inv s1" using addBlock_grid [OF assms, of _ rx ry] a
    by (metis snd_conv)
  show ?thesis
    using Some tr x y a g1 setBlockDataProperties_grid [OF g1]
    by (cases c) (simp_all add: duplicateBlock_def Let_def)
qed

lemma importBlocks_stores_document_blocks:
  assumes "importBlocks bs s = (None, s')"
  shows "\<forall>p \<in> set (blocks s').
           p \<in> set (blocks s)
           \<or> (\<exists>b \<in> set bs. fst p = get ''id'' b \<and> el_get ''blockData'' (snd p) = b)"
  using assms
proof (induction bs arbitrary: s)
  case Nil
  then show ?case by auto
next
  case (Cons b bs)
  then obtain el where el: "createBlockElement b = Inr el"
    by (auto split: sum.splits)
  let ?e = "el\<lparr> el_props := [(''blockData'', b)] \<rparr>"
  let ?s1 = "s\<lparr> blocks := AList.update (get ''id'' b) ?e (blocks s) \<rparr>"
  have r: "importBlocks bs ?s1 = (None, s')" using Cons.prems el by simp
  have sub: "set (blocks ?s1) \<subseteq> insert (get ''id'' b, ?e) (set (blocks s))"
    using set_update_subset by simp
  have g: "el_get ''blockData'' ?e = b"
    by (simp add: el_get_def get_o_def)
  show ?case
  proof (rule ballI)
    fix p assume "p \<in> set (blocks s')"
    with Cons.IH [OF r]
    have "p \<in> set (blocks ?s1)
          \<or> (\<exists>b' \<in> set bs. fst p = get ''id'' b' \<and> el_get ''blockData'' (snd p) = b')"
      by blast
    then show "p \<in> set (blocks s)
          \<or> (\<exists>b' \<in> set (b # bs). fst p = get ''id'' b' \<and> el_get ''blockData'' (snd p) = b')"
      using sub g by auto
  qed
qed

lemma createBlockFromData_no_xy:
  assumes "\<forall>p \<in> set (blocks s). get ''x'' (el_get ''blockData'' (snd p)) = JUndef
                               \<and> get ''y'' (el_get ''blockData'' (snd p)) = JUndef"
  shows "\<forall>p \<in> set (blocks (createBlockFromData available b s)).
           get ''x'' (el_get ''blockData'' (snd p)) = JUndef
         \<and> get ''y'' (el_get ''blockData'' (snd p)) = JUndef"
proof -
  let ?e = "\<lparr> el_id = [],
              el_props = [(''blockData'',
                 JObj [(''id'', get ''id'' b), (''type'', get ''type'' b),
                       (''properties'', js_or (get ''properties'' b) (JObj [])),
                       (''language'', js_or (get ''language'' b) (currentLanguage s))])] \<rparr>"
  have e: "get ''x'' (el_get ''blockData'' ?e) = JUndef \<and> get ''y'' (el_get ''blockData'' ?e) = JUndef"
    by (simp add: el_get_def get_o_def)
  show ?thesis
    using assms e set_update_subset [of "get ''id'' b" ?e "blocks s"]
    by (auto simp: createBlockFromData_def)
qed

lemma fold_createBlockFromData_no_xy:
  assumes "\<forall>p \<in> set (blocks s). get ''x'' (el_get ''blockData'' (snd p)) = JUndef
                               \<and> get ''y'' (el_get ''blockData'' (snd p)) = JUndef"
  shows "\<forall>p \<in> set (blocks (fold (createBlockFromData available) bs s)).
           get ''x'' (el_get ''blockData'' (snd p)) = JUndef
         \<and> get ''y'' (el_get ''blockData'' (snd p)) = JUndef"
  using assms
proof (induction bs arbitrary: s)
  case Nil
  then show ?case by simp
next
  case (Cons b bs)
  show ?case
    using Cons.IH [OF createBlockFromData_no_xy [OF Cons.prems]] by simp
qed

lemma restoreFromJSONState_no_xy:
  "\<forall>p \<in> set (blocks (restoreFromJSONState available canvasState s)).
      get ''x'' (el_get ''blockData'' (snd p)) = JUndef
    \<and> get ''y'' (el_get ''blockData'' (snd p)) = JUndef"
proof -
  have "\<forall>p \<in> set (blocks (clearCanvas s)). get ''x'' (el_get ''blockData'' (snd p)) = JUndef
                               \<and> get ''y'' (el_get ''blockData'' (snd p)) = JUndef"
    by (simp add: clearCanvas_def)
  from fold_createBlockFromData_no_xy [OF this]
  show ?thesis
    by (auto simp: restoreFromJSONState_def clearCanvas_def Let_def split: option.splits)
qed

lemma import_stores_document_blocks:
  assumes "import data s = (Returned r, s')"
  shows "\<exists>bs. d_blocks data = Some bs
           \<and> (\<forall>p \<in> set (blocks s'). \<exists>b \<in> set bs. fst p = get ''id'' b \<and> el_get ''blockData'' (snd p) = b)"
proof -
  obtain bs where bs: "d_blocks data = Some bs"
    using assms by (cases "d_blocks data") (auto simp: import_def)
  obtain s2 where s2: "importBlocks bs (clear s) = (None, s2)" and b: "blocks s' = blocks s2"
    using assms bs
    by (auto simp: import_def Let_def split: prod.splits option.splits)
  have "blocks (clear s) = []" by (simp add: clear_def)
  then show ?thesis
    using importBlocks_stores_document_blocks [OF s2] bs b by auto
qed

section \<open>Export and import\<close>

lemma clear_emptied: "clear s = saveState (emptied s)"
  by (simp add: clear_def emptied_def)

lemma importBlocks_only_blocks:
  "importBlocks bs s = (r, s') \<Longrightarrow> \<exists>bl. s' = s\<lparr> blocks := bl \<rparr>"
proof (induction bs arbitrary: s)
  case Nil
  then have "s' = s\<lparr> blocks := blocks s \<rparr>" by simp
  then show ?case by blast
next
  case (Cons b bs)
  show ?case
  proof (cases "createBlockElement b")
    case (Inl e)
    then have "s' = s\<lparr> blocks := blocks s \<rparr>" using Cons.prems by simp
    then show ?thesis by blast
  next
    case (Inr el)
    then obtain bl where "s' = s\<lparr> blocks := AList.update (get ''id'' b)
        (el\<lparr> el_props := [(''blockData'', b)] \<rparr>) (blocks s) \<rparr>\<lparr> blocks := bl \<rparr>"
      using Cons.IH Cons.prems by fastforce
    then have "s' = s\<lparr> blocks := bl \<rparr>" by simp
    then show ?thesis by blast
  qed
qed

lemma import_shape:
  assumes "import data s = (Returned r, s')"
  shows "\<exists>bl cs z px py.
           s' = saveState ((clear s)\<lparr> blocks := bl, connections := cs,
                                     zoom := z, panX := px, panY := py \<rparr>)"
proof -
  obtain bs where bs: "d_blocks data = Some bs"
    using assms by (cases "d_blocks data") (auto simp: import_def)
  obtain s2 where s2: "importBlocks bs (clear s) = (None, s2)"
    using assms bs by (auto simp: import_def Let_def split: prod.splits option.splits)
  obtain bl where bl: "s2 = (clear s)\<lparr> blocks := bl \<rparr>"
    using importBlocks_only_blocks [OF s2] by blast
  let ?s3 = "case d_connections data of Some cs \<Rightarrow> s2\<lparr> connections := cs \<rparr> | None \<Rightarrow> s2"
  let ?s4 = "case d_metadata data of
               Some m \<Rightarrow> ?s3\<lparr> zoom := (if m_zoom m = 0 then 1 else m_zoom m),
                              panX := m_panX m, panY := m_panY m \<rparr>
             | None \<Rightarrow> ?s3"
  have s': "s' = saveState ?s4"
    using assms bs s2 by (simp add: import_def Let_def)
  define cs where "cs = connections ?s4"
  define z where "z = zoom ?s4"
  define px where "px = panX ?s4"
  define py where "py = panY ?s4"
  have eq: "?s4 = (clear s)\<lparr> blocks := bl, connections := cs,
                          zoom := z, panX := px, panY := py \<rparr>"
    by (simp add: cs_def z_def px_def py_def bl split: option.splits)
  have "s' = saveState ((clear s)\<lparr> blocks := bl, connections := cs,
                                    zoom := z, panX := px, panY := py \<rparr>)"
    unfolding s' eq ..
  then show ?thesis by blast
qed

lemma saveState_room:
  assumes "hist_ok s" "historyIndex s + 2 \<le> int maxHistorySize"
  shows "history (saveState s) = take (nat (historyIndex s + 1)) (history s) @ [capture s]"
    and "historyIndex (saveState s) = historyIndex s + 1"
  using assms
  by (auto simp: hist_ok_def saveState_history Let_def slice0_def)

lemma capture_saveState [simp]: "capture (saveState s) = capture s"
  by (simp add: capture_def)

lemma pending_ok_cong:
  "timers a = timers b \<Longrightarrow> autoSaveTimeout a = autoSaveTimeout b \<Longrightarrow> nextTimerId a = nextTimerId b
   \<Longrightarrow> pending_ok a = pending_ok b"
  by (simp add: pending_ok_def)

lemma restoreState_empty:
  "sn_blocks st = [] \<Longrightarrow> sn_connections st = [] \<Longrightarrow>
   blocks (restoreState st s) = [] \<and> connections (restoreState st s) = []"
  by (simp add: restoreState_def)

section \<open>The scenarios\<close>


lemma undo_two_blocks:
  "blocks (undo two_blocks) =
       [(JStr ''block_1'',
         \<lparr> el_id = [],
           el_props = [(''blockData'', JObj [(''blockData'',
              JObj [(''id'', JStr ''block_1''), (''type'', JStr ''start''), (''x'', JNum 0),
                    (''y'', JNum 0), (''properties'', JObj []), (''definition'', JObj [])])])] \<rparr>)]"
  by code_simp

lemma one_block_grid: "grid_inv one_block"
  by code_simp

lemma one_block_hist_ok: "hist_ok one_block"
  by code_simp

lemma one_block_pending_ok: "pending_ok one_block"
  by code_simp

section \<open>The claims\<close>

text \<open>
  C1. The claim: after any sequence of \<open>addBlock\<close> and \<open>removeBlock\<close> from the empty store,
  every connection names only ids of blocks in the store. The code does not keep this.
  \<open>autoConnectNewBlock\<close> takes the source of a new connection from \<open>lastBlock.id\<close>, and
  \<open>lastBlock\<close> is the element stored in the map, whose id is \<open>canvas-block_1\<close>; the map's
  key is \<open>block_1\<close>. After two insertions the one connection is already dangling, and the
  filter of \<open>removeBlock (block_1)\<close>, which compares \<open>conn.from\<close> with \<open>block_1\<close>, keeps it
  when that block is deleted.
\<close>

theorem removeBlock_keeps_connection_of_deleted_block:
  "map fst (blocks two_blocks) = [JStr ''block_1'', JStr ''block_2'']
   \<and> connections two_blocks = [[(''from'', JStr ''canvas-block_1''), (''to'', JStr ''block_2'')]]
   \<and> danglingConnections two_blocks = connections two_blocks
   \<and> fst (removeBlock (JStr ''block_1'') two_blocks) = Returned JUndef
   \<and> map fst (blocks (snd (removeBlock (JStr ''block_1'') two_blocks))) = [JStr ''block_2'']
   \<and> connections (snd (removeBlock (JStr ''block_1'') two_blocks)) =
       [[(''from'', JStr ''canvas-block_1''), (''to'', JStr ''block_2'')]]"
  by code_simp

text \<open>
  C2. The claim: after K commits and K-1 undos the live graph is deep-equal to the snapshot
  of the first push. With K = 2 the code differs. \<open>saveState\<close> clones the map's entries, whose
  values are elements, so the first snapshot holds \<open>[block_1, {blockData: B}]\<close>;
  \<open>restoreState\<close> reads the entry as \<open>[id, blockData]\<close> and gives the new element the
  \<open>blockData\<close> \<open>{blockData: B}\<close>. After the undo the block's data is wrapped once more than
  when the snapshot was taken: its \<open>type\<close> and \<open>id\<close> read \<open>undefined\<close>, the live map differs
  from the one the first push saw, and a snapshot of the live graph differs from the first
  one. Read entry by entry as \<open>[id, blockData]\<close>, the restored map does repeat the
  snapshot, but then the snapshot never was the graph it was taken from.
\<close>

theorem undo_rewraps_block_data:
  "historyIndex (undo two_blocks) = 0
   \<and> history (undo two_blocks) ! 0 = capture one_block
   \<and> blocks one_block =
       [(JStr ''block_1'',
         \<lparr> el_id = ''canvas-block_1'',
           el_props = [(''blockData'',
              JObj [(''id'', JStr ''block_1''), (''type'', JStr ''start''), (''x'', JNum 0),
                    (''y'', JNum 0), (''properties'', JObj []), (''definition'', JObj [])])] \<rparr>)]
   \<and> blocks (undo two_blocks) =
       [(JStr ''block_1'',
         \<lparr> el_id = [],
           el_props = [(''blockData'', JObj [(''blockData'',
              JObj [(''id'', JStr ''block_1''), (''type'', JStr ''start''), (''x'', JNum 0),
                    (''y'', JNum 0), (''properties'', JObj []), (''definition'', JObj [])])])] \<rparr>)]
   \<and> map (\<lambda>(k, el). get ''type'' (el_get ''blockData'' el)) (blocks (undo two_blocks)) = [JUndef]
   \<and> capture (undo two_blocks) \<noteq> history (undo two_blocks) ! 0
   \<and> map (\<lambda>(k, el). (k, el_get ''blockData'' el)) (blocks (undo two_blocks)) =
       sn_blocks (history (undo two_blocks) ! 0)
   \<and> map (\<lambda>(k, el). (k, el_get ''blockData'' el)) (blocks one_block) \<noteq>
       sn_blocks (capture one_block)"
  by code_simp

text \<open>
  C3. The claim: the auto-linker links each new block from the most recently inserted one
  unless the store is empty, the last block has type \<open>end\<close>, or the new block has type
  \<open>start\<close>; start, A, B, end give \<open>[(start, A), (A, B), (B, end)]\<close>. In the code the three
  links are made, each with the element id \<open>canvas-block_n\<close> as its source rather than the
  block id, and a second start adds none; but \<open>lastBlock.type\<close> is read from the element,
  which has no such property, so the test for \<open>end\<close> never holds and a block inserted after
  the end block is linked from it.
\<close>

theorem autoConnect_links_after_end_block:
  "connections chain4 =
     [[(''from'', JStr ''canvas-block_1''), (''to'', JStr ''block_2'')],
      [(''from'', JStr ''canvas-block_2''), (''to'', JStr ''block_3'')],
      [(''from'', JStr ''canvas-block_3''), (''to'', JStr ''block_4'')]]
   \<and> connections (snd (addBlock (JStr ''start'') (JNum 0, JNum 320) JUndef chain4)) =
       connections chain4
   \<and> connections (snd (addBlock (JStr ''print'') (JNum 0, JNum 320) JUndef chain4)) =
       connections chain4 @ [[(''from'', JStr ''canvas-block_4''), (''to'', JStr ''block_5'')]]
   \<and> connections
       (snd (addBlock (JStr ''print'') (JNum 0, JNum 80) JUndef
          (snd (addBlock (JStr ''end'') (JNum 0, JNum 0) JUndef init)))) =
       [[(''from'', JStr ''canvas-block_1''), (''to'', JStr ''block_2'')]]"
  by code_simp



text \<open>
  C5. The claim: \<open>import(export(X))\<close> rebuilds a graph structurally equal to \<open>X\<close>, for
  every graph \<open>X\<close>. For the graph after two insertions and an undo the code does not,
  whatever the rendering \<open>export\<close> reads the positions from: the block that \<open>restoreState\<close>
  rebuilt carries wrapped data (see C2), so \<open>export\<close> writes its \<open>id\<close> and \<open>type\<close> as
  \<open>undefined\<close>, and \<open>import\<close> clears the canvas and then throws a \<open>TypeError\<close> on that
  block. The canvas is left empty.
\<close>

theorem import_export_fails_after_undo:
  "map fst (blocks (undo two_blocks)) = [JStr ''block_1'']
   \<and> map (\<lambda>b. (get ''id'' b, get ''type'' b))
         (case d_blocks (export lay (undo two_blocks)) of Some bs \<Rightarrow> bs | None \<Rightarrow> []) =
       [(JUndef, JUndef)]
   \<and> fst (import (export lay (undo two_blocks)) (undo two_blocks)) = Threw TypeError
   \<and> blocks (snd (import (export lay (undo two_blocks)) (undo two_blocks))) = []"
proof -
  let ?U = "undo two_blocks"
  let ?b = "exportBlock lay ?U
              \<lparr> el_id = [],
                el_props = [(''blockData'', JObj [(''blockData'',
                  JObj [(''id'', JStr ''block_1''), (''type'', JStr ''start''), (''x'', JNum 0),
                        (''y'', JNum 0), (''properties'', JObj []), (''definition'', JObj [])])])] \<rparr>"
  have it: "get ''id'' ?b = JUndef" "get ''type'' ?b = JUndef" "?b \<noteq> JNull"
    by (simp_all add: exportBlock_def el_get_def get_o_def Let_def)
  have ex: "d_blocks (export lay ?U) = Some [?b]"
    using it(3) by (simp add: export_def undo_two_blocks)
  have cr: "createBlockElement ?b = Inl TypeError"
    using it by (simp add: createBlockElement_def)
  have im: "import (export lay ?U) ?U = (Threw TypeError, clear ?U)"
    unfolding import_def ex using cr by simp
  show ?thesis
    using it ex im by (simp add: undo_two_blocks clear_def)
qed

text \<open>
  C6, as the code has it. For every id that is not a key of the block map,
  \<open>removeBlock(id)\<close> returns \<open>undefined\<close> and leaves the whole state as it was: the block
  map, the connections, the selection, the history and its cursor, and the pending
  autosave.
\<close>

theorem removeBlock_unknown_is_silent:
  assumes "map_of (blocks s) blockId = None"
  shows "removeBlock blockId s = (Returned JUndef, s)"
  using assms by (simp add: removeBlock_def)

theorem removeBlock_unknown_is_silent_witness:
  "map_of (blocks one_block) (JStr ''block_9'') = None
   \<and> removeBlock (JStr ''block_9'') one_block = (Returned JUndef, one_block)"
proof -
  have h: "map_of (blocks one_block) (JStr ''block_9'') = None" by code_simp
  show ?thesis using h removeBlock_unknown_is_silent [OF h] by simp
qed

text \<open>
  Nothing tells the caller that the id was unknown: the call returns \<open>undefined\<close>, as a
  successful removal does, and throws nothing.
\<close>

theorem removeBlock_reports_nothing:
  "map_of (blocks one_block) (JStr ''block_9'') = None
   \<and> map_of (blocks one_block) (JStr ''block_1'') \<noteq> None
   \<and> fst (removeBlock (JStr ''block_9'') one_block) = Returned JUndef
   \<and> fst (removeBlock (JStr ''block_1'') one_block) = Returned JUndef"
  by code_simp

text \<open>
  C7. In a state whose only pending timer is the remembered autosave timer, a commit leaves
  exactly one timer, due \<open>autoSaveDelay\<close> after it: the pending one is cancelled and a new
  one started. For a burst of commits, each less than \<open>autoSaveDelay\<close> after the one
  before, \<open>saveToJSON\<close> is not called during the burst, nor while less than
  \<open>autoSaveDelay\<close> has passed since the last commit; once \<open>autoSaveDelay\<close> has passed it
  has been called exactly once and no timer is pending.
\<close>

theorem autosave_debounce:
  assumes "pending_ok s" and "\<forall>g \<in> set gaps. g < autoSaveDelay"
  shows "timers (saveState s) = [(nextTimerId s, clock s + autoSaveDelay)]
         \<and> saveCalls (burst gaps s) = saveCalls s
         \<and> (\<forall>d. d < autoSaveDelay \<longrightarrow> saveCalls (advance d (burst gaps s)) = saveCalls s)
         \<and> (\<forall>d. autoSaveDelay \<le> d \<longrightarrow>
               saveCalls (advance d (burst gaps s)) = saveCalls s + 1
               \<and> timers (advance d (burst gaps s)) = [])"
proof -
  obtain t where t: "timers (burst gaps s) = [(t, clock (burst gaps s) + autoSaveDelay)]"
    and c: "saveCalls (burst gaps s) = saveCalls s"
    using burst_quiet [OF assms] by blast
  show ?thesis
    using saveState_timers [OF assms(1)] c advance_early(1) [OF t] advance_late [OF t]
    by simp
qed

theorem autosave_debounce_witness:
  "pending_ok init
   \<and> list_all (\<lambda>g. g < autoSaveDelay) [999, 500, 1, 0, 250, 999, 700, 42, 999]
   \<and> saveCalls (burst [999, 500, 1, 0, 250, 999, 700, 42, 999] init) = 0
   \<and> saveCalls (advance 999 (burst [999, 500, 1, 0, 250, 999, 700, 42, 999] init)) = 0
   \<and> saveCalls (advance 1000 (burst [999, 500, 1, 0, 250, 999, 700, 42, 999] init)) = 1
   \<and> timers (advance 1000 (burst [999, 500, 1, 0, 250, 999, 700, 42, 999] init)) = []"
proof -
  have g: "\<forall>g \<in> set [999, 500, 1, 0, 250, 999, 700, 42, 999]. g < autoSaveDelay"
    by (simp add: autoSaveDelay_def)
  have z: "saveCalls init = 0" by (simp add: init_def)
  show ?thesis
    using autosave_debounce [OF init_pending_ok g] g z
    by (simp add: init_pending_ok autoSaveDelay_def)
qed

text \<open>
  C8, as the code has it. If every block's stored coordinates are multiples of 20 (as in
  the empty store), they still are after \<open>addBlock\<close> at a position of two numbers, after
  the drag handler has moved a block and after the drag has ended, after \<open>duplicateBlock\<close>,
  and after \<open>removeBlock\<close>. \<open>import\<close> does not snap: every block it stores is a block of
  the document, unchanged. The session load stores no coordinates in the block data.
\<close>

theorem stored_positions_on_grid:
  assumes "grid_inv s"
  shows "grid_inv (snd (addBlock type (JNum px, JNum py) definition s))
         \<and> grid_inv (dragMove blockId p s)
         \<and> grid_inv (dragEnd s)
         \<and> (\<exists>r. duplicateBlock blockId s = Some r \<and> grid_inv (snd r))
         \<and> grid_inv (snd (removeBlock blockId s))
         \<and> (\<forall>r s'. import data s = (Returned r, s') \<longrightarrow>
               (\<exists>bs. d_blocks data = Some bs
                  \<and> (\<forall>p \<in> set (blocks s'). \<exists>b \<in> set bs.
                         fst p = get ''id'' b \<and> el_get ''blockData'' (snd p) = b)))
         \<and> (\<forall>p \<in> set (blocks (restoreFromJSONState available canvasState s)).
               get ''x'' (el_get ''blockData'' (snd p)) = JUndef
             \<and> get ''y'' (el_get ''blockData'' (snd p)) = JUndef)"
  using assms addBlock_grid dragMove_grid duplicateBlock_grid removeBlock_grid
    import_stores_document_blocks restoreFromJSONState_no_xy
  by (simp add: dragEnd_def grid_inv_def)

theorem stored_positions_on_grid_witness:
  "grid_inv one_block
   \<and> grid_inv (snd (addBlock (JStr ''print'') (JNum 7, JNum 33) JUndef one_block))
   \<and> map (\<lambda>(k, el). (get ''x'' (el_get ''blockData'' el), get ''y'' (el_get ''blockData'' el)))
       (blocks (snd (addBlock (JStr ''print'') (JNum 7, JNum 33) JUndef one_block))) =
       [(JNum 0, JNum 0), (JNum 0, JNum 40)]
   \<and> grid_inv (dragMove (JStr ''block_1'') (13, 58) one_block)
   \<and> map (\<lambda>(k, el). (el_get ''x'' el, el_get ''y'' el))
       (blocks (dragMove (JStr ''block_1'') (13, 58) one_block)) = [(JNum 20, JNum 60)]
   \<and> (\<exists>r. duplicateBlock (JStr ''block_1'') one_block = Some r \<and> grid_inv (snd r))
   \<and> grid_inv (snd (removeBlock (JStr ''block_1'') one_block))"
proof -
  have a: "map (\<lambda>(k, el). (get ''x'' (el_get ''blockData'' el), get ''y'' (el_get ''blockData'' el)))
       (blocks (snd (addBlock (JStr ''print'') (JNum 7, JNum 33) JUndef one_block))) =
       [(JNum 0, JNum 0), (JNum 0, JNum 40)]"
    by code_simp
  have d: "map (\<lambda>(k, el). (el_get ''x'' el, el_get ''y'' el))
       (blocks (dragMove (JStr ''block_1'') (13, 58) one_block)) = [(JNum 20, JNum 60)]"
    by code_simp
  show ?thesis
    using stored_positions_on_grid [OF one_block_grid, of "JStr ''print''" 7 33 JUndef
        "JStr ''block_1''" "(13, 58)"] a d one_block_grid
    by simp
qed

text \<open>
  A document block at \<open>(7, 33)\<close> is stored at \<open>(7, 33)\<close> by \<open>import\<close>, and a block of a
  loaded session has no stored coordinates.
\<close>

theorem import_stores_off_grid_position:
  "fst (import saved_document init) = Returned JUndef
   \<and> map (\<lambda>(k, el). (get ''x'' (el_get ''blockData'' el), get ''y'' (el_get ''blockData'' el)))
       (blocks (snd (import saved_document init))) = [(JNum 7, JNum 33)]
   \<and> \<not> on_grid (JNum 7) \<and> \<not> on_grid (JNum 33)
   \<and> \<not> grid_inv (snd (import saved_document init))
   \<and> map (\<lambda>(k, el). (get ''x'' (el_get ''blockData'' el), get ''y'' (el_get ''blockData'' el)))
       (blocks (restoreFromJSONState [JStr ''start''] saved_session init)) = [(JUndef, JUndef)]"
  by code_simp

text \<open>
  C9. The claim: \<open>addBlock\<close> never assigns the id of a block that exists or existed in the
  session, also after a load or an import. Ids are \<open>block_\<close> and the counter, and neither
  \<open>restoreFromJSONState\<close> (which resets the counter) nor \<open>import\<close> moves the counter past
  the ids it brings in. After the start-up load of a session that holds \<open>block_1\<close>, and
  equally after importing such a document, the first \<open>addBlock\<close> returns \<open>block_1\<close> again
  and overwrites the loaded block in the map.
\<close>

theorem addBlock_reuses_loaded_id:
  "map fst (blocks (restoreFromJSONState [JStr ''start'', JStr ''print''] saved_session init)) =
     [JStr ''block_1'']
   \<and> fst (addBlock (JStr ''print'') (JNum 0, JNum 0) JUndef
            (restoreFromJSONState [JStr ''start'', JStr ''print''] saved_session init)) =
       Returned (JStr ''block_1'')
   \<and> map (\<lambda>(k, el). (k, get ''type'' (el_get ''blockData'' el)))
        (blocks (snd (addBlock (JStr ''print'') (JNum 0, JNum 0) JUndef
            (restoreFromJSONState [JStr ''start'', JStr ''print''] saved_session init)))) =
       [(JStr ''block_1'', JStr ''print'')]
   \<and> fst (import saved_document init) = Returned JUndef
   \<and> map fst (blocks (snd (import saved_document init))) = [JStr ''block_1'']
   \<and> fst (addBlock (JStr ''print'') (JNum 0, JNum 0) JUndef (snd (import saved_document init))) =
       Returned (JStr ''block_1'')"
  by code_simp

text \<open>
  C10, as the code has it. A successful \<open>import\<close>, in a state whose cursor is valid and has
  room for two more entries below the cap, commits two history entries: first the cleared
  canvas, pushed by the \<open>clear()\<close> it calls, then the imported graph. The cursor moves by
  two, and one \<open>undo\<close> after the import restores the cleared canvas. One autosave timer is
  left pending, due \<open>autoSaveDelay\<close> later: the one \<open>clear()\<close> started is cancelled by the
  final \<open>saveState\<close>.
\<close>

theorem import_commits_two_entries:
  assumes "hist_ok s" and "pending_ok s" and "historyIndex s + 3 \<le> int maxHistorySize"
    and "import data s = (Returned r, s')"
  shows "history s' = take (nat (historyIndex s + 1)) (history s) @ [capture (emptied s), capture s']
         \<and> historyIndex s' = historyIndex s + 2
         \<and> blocks (undo s') = [] \<and> connections (undo s') = []
         \<and> timers s' = [(nextTimerId s + 1, clock s + autoSaveDelay)]
         \<and> autoSaveTimeout s' = Some (nextTimerId s + 1)"
proof -
  obtain bl cs z px py where s': "s' = saveState ((clear s)\<lparr> blocks := bl, connections := cs,
                                     zoom := z, panX := px, panY := py \<rparr>)"
    using import_shape [OF assms(4)] by blast
  let ?t = "take (nat (historyIndex s + 1)) (history s)"
  let ?s4 = "(clear s)\<lparr> blocks := bl, connections := cs, zoom := z, panX := px, panY := py \<rparr>"
  have he: "hist_ok (emptied s)" "historyIndex (emptied s) = historyIndex s"
    "history (emptied s) = history s"
    using assms(1) by (simp_all add: hist_ok_def emptied_def)
  have h1: "history (clear s) = ?t @ [capture (emptied s)]"
    and i1: "historyIndex (clear s) = historyIndex s + 1"
    using saveState_room [OF he(1)] assms(3) he(2,3) by (simp_all add: clear_emptied)
  have len: "length ?t = nat (historyIndex s + 1)"
    using assms(1) by (auto simp: hist_ok_def)
  have ok4: "hist_ok ?s4"
    using h1 i1 len assms(1) by (simp add: hist_ok_def)
  have h4: "history ?s4 = ?t @ [capture (emptied s)]" "historyIndex ?s4 = historyIndex s + 1"
    using h1 i1 by simp_all
  have suc: "nat (historyIndex s + 1 + 1) = Suc (nat (historyIndex s + 1))"
    using assms(1) unfolding hist_ok_def by linarith
  have tk: "take (nat (historyIndex s + 1 + 1)) (?t @ [capture (emptied s)]) = ?t @ [capture (emptied s)]"
    unfolding suc using len by simp
  have H: "history s' = ?t @ [capture (emptied s), capture s']"
    and I: "historyIndex s' = historyIndex s + 2"
    using saveState_room [OF ok4] assms(3) h4 tk by (simp_all add: s')
  define j where "j = historyIndex s + 1"
  have j: "0 \<le> j" "nat j = length ?t" "historyIndex s' - 1 = j" "0 < historyIndex s'"
    using assms(1) I len by (auto simp: hist_ok_def j_def)
  have nth: "history s' ! nat j = capture (emptied s)"
    unfolding H j(2) by (rule nth_append_length)
  have inb: "nat j < length (history s')"
    unfolding H j(2) by simp
  have em: "sn_blocks (capture (emptied s)) = []" "sn_connections (capture (emptied s)) = []"
    by (simp_all add: capture_def emptied_def)
  have "undo s' = restoreState (capture (emptied s)) (s'\<lparr> historyIndex := j \<rparr>)"
    unfolding undo_def restoreAt_def using j(1,3,4) nth inb by simp
  then have U: "blocks (undo s') = [] \<and> connections (undo s') = []"
    using restoreState_empty [OF em] by simp
  have pe: "pending_ok (emptied s)" "nextTimerId (emptied s) = nextTimerId s"
    "clock (emptied s) = clock s"
    using assms(2) by (simp_all add: pending_ok_def emptied_def)
  have pc: "pending_ok (clear s)"
    using saveState_pending_ok [OF pe(1)] by (simp add: clear_emptied)
  have p4: "pending_ok ?s4"
    using pc pending_ok_cong [of ?s4 "clear s"] by simp
  have T: "timers s' = [(nextTimerId s + 1, clock s + autoSaveDelay)]"
    using saveState_timers [OF p4] pe(2,3) by (simp add: s' clear_emptied)
  have A: "autoSaveTimeout s' = Some (nextTimerId s + 1)"
    using pe(2) by (simp add: s' clear_emptied)
  show ?thesis using H I U T A by simp
qed

theorem import_commits_two_entries_witness:
  "hist_ok one_block \<and> pending_ok one_block
   \<and> historyIndex one_block + 3 \<le> int maxHistorySize
   \<and> fst (import saved_document one_block) = Returned JUndef
   \<and> historyIndex one_block = 0
   \<and> historyIndex (snd (import saved_document one_block)) = 2
   \<and> length (history (snd (import saved_document one_block))) = 3
   \<and> blocks (undo (snd (import saved_document one_block))) = []
   \<and> timers (snd (import saved_document one_block)) = [(3, 1000)]"
proof -
  have r: "historyIndex one_block + 3 \<le> int maxHistorySize" by code_simp
  have f: "fst (import saved_document one_block) = Returned JUndef" by code_simp
  then have i: "import saved_document one_block =
                  (Returned JUndef, snd (import saved_document one_block))"
    by (metis prod.collapse)
  have z: "historyIndex one_block = 0" by code_simp
  have n1: "nextTimerId one_block = 2" by code_simp
  have n2: "clock one_block = 0" by code_simp
  have n3: "length (history one_block) = 1" by code_simp
  show ?thesis
    using import_commits_two_entries [OF one_block_hist_ok one_block_pending_ok r i]
      one_block_hist_ok one_block_pending_ok r f z n1 n2 n3
    by (simp add: autoSaveDelay_def)
qed

text \<open>
  On a canvas with one block and one history entry, \<open>import\<close> leaves three entries, and
  the undo that follows shows the empty canvas, not the block that was there before.
\<close>

theorem import_pushes_cleared_canvas_first:
  "fst (import saved_document one_block) = Returned JUndef
   \<and> length (history one_block) = 1
   \<and> length (history (snd (import saved_document one_block))) = 3
   \<and> map fst (blocks one_block) = [JStr ''block_1'']
   \<and> map (\<lambda>(k, el). get ''x'' (el_get ''blockData'' el)) (blocks one_block) = [JNum 0]
   \<and> blocks (undo (snd (import saved_document one_block))) = []
   \<and> map (\<lambda>(k, el). get ''x'' (el_get ''blockData'' el))
        (blocks (snd (import saved_document one_block))) = [JNum 7]"
  by code_simp

end
